theory Spec2Isabelle
  imports Main
begin

section \<open>The record store of \<^verbatim>\<open>sqlite_backend.py\<close>\<close>

text \<open>
  The module keeps one table, \<^verbatim>\<open>analysis_data\<close>, in an SQLite file and offers seven
  functions over it. Each function has the same shape:
  \<^verbatim>\<open>
  try:
      conn = sqlite3.connect(DB_PATH)
      cursor = conn.cursor()
      cursor.execute(...)
      ...
  except sqlite3.Error as e:
      print(f"Error ...: {e}")
      [return <message>]
  finally:
      conn.close()
  \<close>
  The embedding makes explicit what the Python leaves implicit: the database file, the
  standard output, the number of open connections, the local variable \<^verbatim>\<open>conn\<close> (which
  is unbound until \<^verbatim>\<open>sqlite3.connect\<close> has returned), the exceptions, and the point at
  which the engine fails, if it does.
\<close>

subsection \<open>Rows, the table and the process state\<close>

text \<open>
  A row of \<^verbatim>\<open>analysis_data\<close>: \<^verbatim>\<open>id INTEGER PRIMARY KEY AUTOINCREMENT\<close>, and three
  \<^verbatim>\<open>TEXT NOT NULL\<close> columns. Text is a \<^typ>\<open>string\<close>: the store compares it for
  equality only.
\<close>

record row =
  row_id :: int
  row_topic :: string
  row_parameters :: string
  row_content :: string

text \<open>
  The table holds its rows in rowid order, together with the counter that
  \<^verbatim>\<open>AUTOINCREMENT\<close> keeps in \<^verbatim>\<open>sqlite_sequence\<close>: the largest rowid ever given out.
\<close>

record tbl =
  rows :: "row list"
  autoinc :: int

text \<open>
  Python's exceptions, as far as these functions meet them: any subclass of
  \<^verbatim>\<open>sqlite3.Error\<close> with its message, and the \<^verbatim>\<open>UnboundLocalError\<close> raised by reading a
  local variable that has not been assigned.
\<close>

datatype exn = SqliteError string | UnboundLocalError

text \<open>
  Where the engine fails during one call: nowhere, in \<^verbatim>\<open>sqlite3.connect\<close>, in
  \<^verbatim>\<open>cursor.execute\<close>, in \<^verbatim>\<open>fetchone\<close>/\<^verbatim>\<open>fetchall\<close>, or in \<^verbatim>\<open>conn.commit\<close>.
  Failures that follow from the state (a missing table, an exhausted rowid range) are
  computed from the state and need no fault.
\<close>

datatype fault = Healthy | AtConnect | AtExecute | AtFetch | AtCommit

text \<open>
  A connection sees the database including its own uncommitted changes; \<open>in_txn\<close> says
  whether a transaction is open. The module opens every connection with the default
  isolation level, where the \<^verbatim>\<open>sqlite3\<close> module begins a transaction before
  \<^verbatim>\<open>INSERT\<close>, \<^verbatim>\<open>UPDATE\<close> and \<^verbatim>\<open>DELETE\<close> only.
\<close>

record conn =
  view :: "tbl option"
  in_txn :: bool

text \<open>
  The state outside the call: the committed database (\<open>None\<close>: the table has not been
  created), what has been printed, and how many connections are open.
\<close>

record proc =
  db :: "tbl option"
  out :: "string list"
  open_conns :: nat

definition print :: "string \<Rightarrow> proc \<Rightarrow> proc" where
  "print msg s = s\<lparr>out := out s @ [msg]\<rparr>"

subsection \<open>The \<^verbatim>\<open>sqlite3\<close> calls\<close>

definition sqlite3_connect :: "fault \<Rightarrow> proc \<Rightarrow> (exn + conn) \<times> proc" where
  "sqlite3_connect f s =
     (if f = AtConnect then (Inl (SqliteError ''unable to open database file''), s)
      else (Inr \<lparr>view = db s, in_txn = False\<rparr>, s\<lparr>open_conns := Suc (open_conns s)\<rparr>))"

text \<open>
  \<^verbatim>\<open>conn.commit()\<close> does nothing when no transaction is open; otherwise it makes the
  connection's view the committed database.
\<close>

definition conn_commit :: "fault \<Rightarrow> conn \<Rightarrow> proc \<Rightarrow> (exn + conn) \<times> proc" where
  "conn_commit f c s =
     (if \<not> in_txn c then (Inr c, s)
      else if f = AtCommit then (Inl (SqliteError ''disk I/O error''), s)
      else (Inr (c\<lparr>in_txn := False\<rparr>), s\<lparr>db := view c\<rparr>))"

text \<open>
  \<^verbatim>\<open>conn.close()\<close> in the \<^verbatim>\<open>finally\<close> block reads the local variable \<^verbatim>\<open>conn\<close>
  (\<open>None\<close>: unbound). Closing drops whatever the connection has not committed.
\<close>

definition conn_close :: "conn option \<Rightarrow> proc \<Rightarrow> (exn + unit) \<times> proc" where
  "conn_close cv s =
     (case cv of
        None \<Rightarrow> (Inl UnboundLocalError, s)
      | Some c \<Rightarrow> (Inr (), s\<lparr>open_conns := open_conns s - 1\<rparr>))"

definition key_matches :: "string \<Rightarrow> string \<Rightarrow> row \<Rightarrow> bool" where
  "key_matches topic parameters r \<longleftrightarrow> row_topic r = topic \<and> row_parameters r = parameters"

text \<open>
  \<^verbatim>\<open>CREATE TABLE IF NOT EXISTS analysis_data (...)\<close>. The statement runs outside any
  transaction, so it takes effect in the database when it is executed.
\<close>

definition execute_create :: "fault \<Rightarrow> conn \<Rightarrow> proc \<Rightarrow> (exn + conn) \<times> proc" where
  "execute_create f c s =
     (if f = AtExecute then (Inl (SqliteError ''disk I/O error''), s)
      else case view c of
        Some t \<Rightarrow> (Inr c, s)
      | None \<Rightarrow>
          (Inr (c\<lparr>view := Some \<lparr>rows = [], autoinc = 0\<rparr>\<rparr>),
           s\<lparr>db := Some \<lparr>rows = [], autoinc = 0\<rparr>\<rparr>))"

text \<open>
  \<^verbatim>\<open>SELECT name FROM sqlite_master WHERE type='table' AND name='analysis_data'\<close>:
  the cursor over the names found.
\<close>

definition execute_select_master :: "fault \<Rightarrow> conn \<Rightarrow> exn + string list" where
  "execute_select_master f c =
     (if f = AtExecute then Inl (SqliteError ''disk I/O error'')
      else case view c of
        None \<Rightarrow> Inr []
      | Some t \<Rightarrow> Inr [''analysis_data''])"

text \<open>
  \<^verbatim>\<open>INSERT INTO analysis_data (topic, parameters, content) VALUES (?, ?, ?)\<close>. The new
  rowid is one more than the largest rowid the table has ever held; when that is the
  largest 64-bit integer the insert fails.
\<close>

definition execute_insert :: "fault \<Rightarrow> conn \<Rightarrow> string \<Rightarrow> string \<Rightarrow> string \<Rightarrow> exn + conn" where
  "execute_insert f c topic parameters content =
     (if f = AtExecute then Inl (SqliteError ''disk I/O error'')
      else case view c of
        None \<Rightarrow> Inl (SqliteError ''no such table: analysis_data'')
      | Some t \<Rightarrow>
          (let largest = fold max (map row_id (rows t)) (autoinc t) in
           if largest \<ge> 9223372036854775807
           then Inl (SqliteError ''database or disk is full'')
           else Inr \<lparr>view = Some
                       \<lparr>rows = rows t @
                          [\<lparr>row_id = largest + 1, row_topic = topic,
                            row_parameters = parameters, row_content = content\<rparr>],
                        autoinc = largest + 1\<rparr>,
                     in_txn = True\<rparr>))"

text \<open>
  \<^verbatim>\<open>SELECT content FROM analysis_data WHERE topic = ? AND parameters = ?\<close>: the cursor
  over the contents of the matching rows, in rowid order.
\<close>

definition execute_select :: "fault \<Rightarrow> conn \<Rightarrow> string \<Rightarrow> string \<Rightarrow> exn + string list" where
  "execute_select f c topic parameters =
     (if f = AtExecute then Inl (SqliteError ''disk I/O error'')
      else case view c of
        None \<Rightarrow> Inl (SqliteError ''no such table: analysis_data'')
      | Some t \<Rightarrow> Inr (map row_content (filter (key_matches topic parameters) (rows t))))"

text \<open>\<^verbatim>\<open>SELECT * FROM analysis_data\<close>: the cursor over all rows.\<close>

definition execute_select_all :: "fault \<Rightarrow> conn \<Rightarrow> exn + row list" where
  "execute_select_all f c =
     (if f = AtExecute then Inl (SqliteError ''disk I/O error'')
      else case view c of
        None \<Rightarrow> Inl (SqliteError ''no such table: analysis_data'')
      | Some t \<Rightarrow> Inr (rows t))"

text \<open>
  \<^verbatim>\<open>DELETE FROM analysis_data WHERE topic = ? AND parameters = ?\<close>: the connection
  afterwards and \<^verbatim>\<open>cursor.rowcount\<close>, the number of rows deleted.
\<close>

definition execute_delete :: "fault \<Rightarrow> conn \<Rightarrow> string \<Rightarrow> string \<Rightarrow> exn + conn \<times> nat" where
  "execute_delete f c topic parameters =
     (if f = AtExecute then Inl (SqliteError ''disk I/O error'')
      else case view c of
        None \<Rightarrow> Inl (SqliteError ''no such table: analysis_data'')
      | Some t \<Rightarrow>
          Inr (\<lparr>view = Some (t\<lparr>rows := filter (\<lambda>r. \<not> key_matches topic parameters r) (rows t)\<rparr>),
                in_txn = True\<rparr>,
               length (filter (key_matches topic parameters) (rows t))))"

text \<open>
  \<^verbatim>\<open>UPDATE analysis_data SET content = ? WHERE topic = ? AND parameters = ?\<close>: the
  connection afterwards and \<^verbatim>\<open>cursor.rowcount\<close>, the number of rows the statement
  wrote (a row whose content already was the new one counts).
\<close>

definition execute_update :: "fault \<Rightarrow> conn \<Rightarrow> string \<Rightarrow> string \<Rightarrow> string \<Rightarrow> exn + conn \<times> nat" where
  "execute_update f c new_content topic parameters =
     (if f = AtExecute then Inl (SqliteError ''disk I/O error'')
      else case view c of
        None \<Rightarrow> Inl (SqliteError ''no such table: analysis_data'')
      | Some t \<Rightarrow>
          Inr (\<lparr>view = Some (t\<lparr>rows :=
                   map (\<lambda>r. if key_matches topic parameters r
                             then r\<lparr>row_content := new_content\<rparr> else r) (rows t)\<rparr>),
                in_txn = True\<rparr>,
               length (filter (key_matches topic parameters) (rows t))))"

definition fetchone :: "fault \<Rightarrow> 'a list \<Rightarrow> exn + 'a option" where
  "fetchone f cur =
     (if f = AtFetch then Inl (SqliteError ''disk I/O error'')
      else case cur of [] \<Rightarrow> Inr None | x # xs \<Rightarrow> Inr (Some x))"

definition fetchall :: "fault \<Rightarrow> 'a list \<Rightarrow> exn + 'a list" where
  "fetchall f cur =
     (if f = AtFetch then Inl (SqliteError ''disk I/O error'') else Inr cur)"

subsection \<open>\<^verbatim>\<open>except sqlite3.Error\<close> and \<^verbatim>\<open>finally\<close>\<close>

text \<open>
  The \<^verbatim>\<open>try\<close> block of a function yields its outcome (an exception, or the value it
  returns), the binding of \<^verbatim>\<open>conn\<close> and the state. The handler catches an
  \<^verbatim>\<open>sqlite3.Error\<close> only and turns it into the handler's return value. The
  \<^verbatim>\<open>finally\<close> block then runs \<^verbatim>\<open>conn.close()\<close> on every path; an exception raised
  there replaces the pending outcome.
\<close>

definition except_finally ::
  "(exn + 'a) \<times> conn option \<times> proc \<Rightarrow> (string \<Rightarrow> proc \<Rightarrow> 'a \<times> proc) \<Rightarrow> (exn + 'a) \<times> proc" where
  "except_finally body handler =
     (case body of (r, cv, s1) \<Rightarrow>
        (case (case r of
                 Inl (SqliteError e) \<Rightarrow> (case handler e s1 of (v, s2) \<Rightarrow> (Inr v, s2))
               | Inl UnboundLocalError \<Rightarrow> (r, s1)
               | Inr v \<Rightarrow> (r, s1)) of
           (r2, s2) \<Rightarrow>
             (case conn_close cv s2 of
                (Inl e, s3) \<Rightarrow> (Inl e, s3)
              | (Inr u, s3) \<Rightarrow> (r2, s3))))"

subsection \<open>The seven functions\<close>

definition init_db_try :: "fault \<Rightarrow> proc \<Rightarrow> (exn + unit) \<times> conn option \<times> proc" where
  "init_db_try f s =
     (case sqlite3_connect f s of
        (Inl e, s1) \<Rightarrow> (Inl e, None, s1)
      | (Inr conn, s1) \<Rightarrow>
          (case execute_create f conn s1 of
             (Inl e, s2) \<Rightarrow> (Inl e, Some conn, s2)
           | (Inr conn2, s2) \<Rightarrow>
               (case conn_commit f conn2 s2 of
                  (Inl e, s3) \<Rightarrow> (Inl e, Some conn, s3)
                | (Inr conn3, s3) \<Rightarrow>
                    (Inr (), Some conn,
                     print ''Database initialized and table 'analysis_data' is ready.'' s3))))"

definition init_db :: "fault \<Rightarrow> proc \<Rightarrow> (exn + unit) \<times> proc" where
  "init_db f s =
     except_finally (init_db_try f s)
       (\<lambda>e s1. ((), print (''Error initializing database: '' @ e) s1))"

definition check_table_exists_try :: "fault \<Rightarrow> proc \<Rightarrow> (exn + bool) \<times> conn option \<times> proc" where
  "check_table_exists_try f s =
     (case sqlite3_connect f s of
        (Inl e, s1) \<Rightarrow> (Inl e, None, s1)
      | (Inr conn, s1) \<Rightarrow>
          (case execute_select_master f conn of
             Inl e \<Rightarrow> (Inl e, Some conn, s1)
           | Inr cursor \<Rightarrow>
               (case fetchone f cursor of
                  Inl e \<Rightarrow> (Inl e, Some conn, s1)
                | Inr (Some result) \<Rightarrow>
                    (Inr True, Some conn, print ''Table 'analysis_data' exists.'' s1)
                | Inr None \<Rightarrow>
                    (Inr False, Some conn, print ''Table 'analysis_data' does not exist.'' s1))))"

definition check_table_exists :: "fault \<Rightarrow> proc \<Rightarrow> (exn + bool) \<times> proc" where
  "check_table_exists f s =
     except_finally (check_table_exists_try f s)
       (\<lambda>e s1. (False, print (''Error checking table existence: '' @ e) s1))"

definition save_to_sqlite_try ::
  "fault \<Rightarrow> string \<Rightarrow> string \<Rightarrow> string \<Rightarrow> proc \<Rightarrow> (exn + unit) \<times> conn option \<times> proc" where
  "save_to_sqlite_try f topic parameters content s =
     (case sqlite3_connect f s of
        (Inl e, s1) \<Rightarrow> (Inl e, None, s1)
      | (Inr conn, s1) \<Rightarrow>
          (case execute_insert f conn topic parameters content of
             Inl e \<Rightarrow> (Inl e, Some conn, s1)
           | Inr conn2 \<Rightarrow>
               (case conn_commit f conn2 s1 of
                  (Inl e, s2) \<Rightarrow> (Inl e, Some conn, s2)
                | (Inr conn3, s2) \<Rightarrow>
                    (Inr (), Some conn, print ''Content saved to SQLite database.'' s2))))"

definition save_to_sqlite ::
  "fault \<Rightarrow> string \<Rightarrow> string \<Rightarrow> string \<Rightarrow> proc \<Rightarrow> (exn + unit) \<times> proc" where
  "save_to_sqlite f topic parameters content s =
     except_finally (save_to_sqlite_try f topic parameters content s)
       (\<lambda>e s1. ((), print (''Error saving content to SQLite: '' @ e) s1))"

definition retrieve_from_sqlite_try ::
  "fault \<Rightarrow> string \<Rightarrow> string \<Rightarrow> proc \<Rightarrow> (exn + string) \<times> conn option \<times> proc" where
  "retrieve_from_sqlite_try f topic parameters s =
     (case sqlite3_connect f s of
        (Inl e, s1) \<Rightarrow> (Inl e, None, s1)
      | (Inr conn, s1) \<Rightarrow>
          (case execute_select f conn topic parameters of
             Inl e \<Rightarrow> (Inl e, Some conn, s1)
           | Inr cursor \<Rightarrow>
               (case fetchone f cursor of
                  Inl e \<Rightarrow> (Inl e, Some conn, s1)
                | Inr (Some result) \<Rightarrow>
                    (Inr result, Some conn, print ''Content retrieved successfully.'' s1)
                | Inr None \<Rightarrow>
                    (Inr ''No content found for the given topic and parameters.'', Some conn,
                     print ''No content found for the given topic and parameters.'' s1))))"

definition retrieve_from_sqlite ::
  "fault \<Rightarrow> string \<Rightarrow> string \<Rightarrow> proc \<Rightarrow> (exn + string) \<times> proc" where
  "retrieve_from_sqlite f topic parameters s =
     except_finally (retrieve_from_sqlite_try f topic parameters s)
       (\<lambda>e s1. (''An error occurred while retrieving the content.'',
                 print (''Error retrieving content from SQLite: '' @ e) s1))"

definition delete_from_sqlite_try ::
  "fault \<Rightarrow> string \<Rightarrow> string \<Rightarrow> proc \<Rightarrow> (exn + string) \<times> conn option \<times> proc" where
  "delete_from_sqlite_try f topic parameters s =
     (case sqlite3_connect f s of
        (Inl e, s1) \<Rightarrow> (Inl e, None, s1)
      | (Inr conn, s1) \<Rightarrow>
          (case execute_delete f conn topic parameters of
             Inl e \<Rightarrow> (Inl e, Some conn, s1)
           | Inr (conn2, rowcount) \<Rightarrow>
               (case conn_commit f conn2 s1 of
                  (Inl e, s2) \<Rightarrow> (Inl e, Some conn, s2)
                | (Inr conn3, s2) \<Rightarrow>
                    (if rowcount > 0
                     then (Inr ''Content deleted successfully.'', Some conn,
                           print ''Content deleted successfully.'' s2)
                     else (Inr ''No content found to delete for the given topic and parameters.'',
                           Some conn,
                           print ''No content found to delete for the given topic and parameters.''
                             s2)))))"

definition delete_from_sqlite ::
  "fault \<Rightarrow> string \<Rightarrow> string \<Rightarrow> proc \<Rightarrow> (exn + string) \<times> proc" where
  "delete_from_sqlite f topic parameters s =
     except_finally (delete_from_sqlite_try f topic parameters s)
       (\<lambda>e s1. (''An error occurred while deleting the content.'',
                 print (''Error deleting content from SQLite: '' @ e) s1))"

definition retrieve_all_data_try :: "fault \<Rightarrow> proc \<Rightarrow> (exn + row list) \<times> conn option \<times> proc" where
  "retrieve_all_data_try f s =
     (case sqlite3_connect f s of
        (Inl e, s1) \<Rightarrow> (Inl e, None, s1)
      | (Inr conn, s1) \<Rightarrow>
          (case execute_select_all f conn of
             Inl e \<Rightarrow> (Inl e, Some conn, s1)
           | Inr cursor \<Rightarrow>
               (case fetchall f cursor of
                  Inl e \<Rightarrow> (Inl e, Some conn, s1)
                | Inr records \<Rightarrow>
                    (Inr records, Some conn, print ''All records retrieved successfully.'' s1))))"

definition retrieve_all_data :: "fault \<Rightarrow> proc \<Rightarrow> (exn + row list) \<times> proc" where
  "retrieve_all_data f s =
     except_finally (retrieve_all_data_try f s)
       (\<lambda>e s1. ([], print (''Error retrieving all records: '' @ e) s1))"

definition update_sqlite_try ::
  "fault \<Rightarrow> string \<Rightarrow> string \<Rightarrow> string \<Rightarrow> proc \<Rightarrow> (exn + string) \<times> conn option \<times> proc" where
  "update_sqlite_try f topic parameters new_content s =
     (case sqlite3_connect f s of
        (Inl e, s1) \<Rightarrow> (Inl e, None, s1)
      | (Inr conn, s1) \<Rightarrow>
          (case execute_update f conn new_content topic parameters of
             Inl e \<Rightarrow> (Inl e, Some conn, s1)
           | Inr (conn2, rowcount) \<Rightarrow>
               (case conn_commit f conn2 s1 of
                  (Inl e, s2) \<Rightarrow> (Inl e, Some conn, s2)
                | (Inr conn3, s2) \<Rightarrow>
                    (if rowcount > 0
                     then (Inr ''Content updated successfully.'', Some conn,
                           print ''Content updated successfully.'' s2)
                     else (Inr ''No matching content found to update.'', Some conn,
                           print ''No matching content found to update.'' s2)))))"

definition update_sqlite ::
  "fault \<Rightarrow> string \<Rightarrow> string \<Rightarrow> string \<Rightarrow> proc \<Rightarrow> (exn + string) \<times> proc" where
  "update_sqlite f topic parameters new_content s =
     except_finally (update_sqlite_try f topic parameters new_content s)
       (\<lambda>e s1. (''An error occurred while updating the content.'',
                 print (''Error updating content in SQLite: '' @ e) s1))"

subsection \<open>Well-formed tables and repeated saves\<close>

text \<open>
  What \<^verbatim>\<open>AUTOINCREMENT\<close> maintains: the rows are held in strictly increasing rowid
  order, and no rowid exceeds the counter.
\<close>

definition store_inv :: "tbl \<Rightarrow> bool" where
  "store_inv t \<longleftrightarrow>
     sorted_wrt (<) (map row_id (rows t)) \<and> list_all (\<lambda>r. row_id r \<le> autoinc t) (rows t)"

text \<open>Saving a list of (topic, parameters, content) triples, one call each, in order.\<close>

fun save_all :: "(string \<times> string \<times> string) list \<Rightarrow> proc \<Rightarrow> proc" where
  "save_all [] s = s"
| "save_all ((topic, parameters, content) # rest) s =
     save_all rest (snd (save_to_sqlite Healthy topic parameters content s))"

section \<open>Properties\<close>

subsection \<open>Unfolding the calls\<close>

lemmas call_defs = print_def sqlite3_connect_def conn_commit_def conn_close_def
  execute_create_def execute_select_master_def execute_insert_def execute_select_def
  execute_select_all_def execute_delete_def execute_update_def fetchone_def fetchall_def
  except_finally_def

lemmas fun_defs = init_db_def init_db_try_def check_table_exists_def check_table_exists_try_def
  save_to_sqlite_def save_to_sqlite_try_def retrieve_from_sqlite_def retrieve_from_sqlite_try_def
  delete_from_sqlite_def delete_from_sqlite_try_def retrieve_all_data_def retrieve_all_data_try_def
  update_sqlite_def update_sqlite_try_def

lemma fold_max_ge_init: "(a::int) \<le> fold max xs a"
  by (induction xs arbitrary: a) (auto intro: order_trans [OF max.cobounded2])

lemma fold_max_ge_elem: "x \<in> set xs \<Longrightarrow> (x::int) \<le> fold max xs a"
proof (induction xs arbitrary: a)
  case Nil
  then show ?case by simp
next
  case (Cons y ys)
  show ?case
  proof (cases "x = y")
    case True
    have "y \<le> max y a" by simp
    also have "\<dots> \<le> fold max ys (max y a)" by (rule fold_max_ge_init)
    finally show ?thesis using True by simp
  next
    case False
    with Cons show ?thesis by simp
  qed
qed

lemma fold_max_bounded: "list_all (\<lambda>x. x \<le> a) xs \<Longrightarrow> fold max xs (a::int) = a"
  by (induction xs) (auto simp: max_def)

lemma largest_is_autoinc: "store_inv t \<Longrightarrow> fold max (map row_id (rows t)) (autoinc t) = autoinc t"
  by (rule fold_max_bounded) (simp add: store_inv_def list_all_iff)

subsection \<open>What each function does when the engine is healthy\<close>

lemma save_healthy:
  assumes "db s = Some t" "fold max (map row_id (rows t)) (autoinc t) < 9223372036854775807"
  shows "save_to_sqlite Healthy topic parameters content s =
     (Inr (), print ''Content saved to SQLite database.''
        (s\<lparr>db := Some \<lparr>rows = rows t @
                          [\<lparr>row_id = fold max (map row_id (rows t)) (autoinc t) + 1, row_topic = topic,
                            row_parameters = parameters, row_content = content\<rparr>],
                        autoinc = fold max (map row_id (rows t)) (autoinc t) + 1\<rparr>\<rparr>))"
  using assms by (simp add: fun_defs call_defs Let_def)

lemma retrieve_healthy:
  "db s = Some t \<Longrightarrow> fst (retrieve_from_sqlite Healthy topic parameters s) =
     Inr (case filter (key_matches topic parameters) (rows t) of
            [] \<Rightarrow> ''No content found for the given topic and parameters.''
          | r # rs \<Rightarrow> row_content r)"
  by (simp add: fun_defs call_defs split: list.splits)

lemma update_healthy:
  "db s = Some t \<Longrightarrow> update_sqlite Healthy topic parameters new_content s =
     (if filter (key_matches topic parameters) (rows t) \<noteq> []
      then (Inr ''Content updated successfully.'',
            print ''Content updated successfully.''
              (s\<lparr>db := Some (t\<lparr>rows := map (\<lambda>r. if key_matches topic parameters r
                             then r\<lparr>row_content := new_content\<rparr> else r) (rows t)\<rparr>)\<rparr>))
      else (Inr ''No matching content found to update.'',
            print ''No matching content found to update.''
              (s\<lparr>db := Some (t\<lparr>rows := map (\<lambda>r. if key_matches topic parameters r
                             then r\<lparr>row_content := new_content\<rparr> else r) (rows t)\<rparr>)\<rparr>)))"
  by (simp add: fun_defs call_defs)

lemma delete_healthy:
  "db s = Some t \<Longrightarrow> delete_from_sqlite Healthy topic parameters s =
     (if filter (key_matches topic parameters) (rows t) \<noteq> []
      then (Inr ''Content deleted successfully.'',
            print ''Content deleted successfully.''
              (s\<lparr>db := Some (t\<lparr>rows := filter (\<lambda>r. \<not> key_matches topic parameters r) (rows t)\<rparr>)\<rparr>))
      else (Inr ''No content found to delete for the given topic and parameters.'',
            print ''No content found to delete for the given topic and parameters.''
              (s\<lparr>db := Some (t\<lparr>rows := filter (\<lambda>r. \<not> key_matches topic parameters r) (rows t)\<rparr>)\<rparr>)))"
  by (simp add: fun_defs call_defs)

lemma retrieve_all_healthy:
  "db s = Some t \<Longrightarrow> fst (retrieve_all_data Healthy s) = Inr (rows t)"
  by (simp add: fun_defs call_defs)

lemma init_db_healthy:
  "db (snd (init_db Healthy s)) = Some (case db s of None \<Rightarrow> \<lparr>rows = [], autoinc = 0\<rparr> | Some t \<Rightarrow> t)"
  by (simp add: fun_defs call_defs split: option.splits)

lemma init_db_keeps: "db s = Some t \<Longrightarrow> db (snd (init_db f s)) = Some t"
  by (cases f) (simp_all add: fun_defs call_defs)

lemma save_step:
  assumes "db s = Some t" and "store_inv t" and "autoinc t < 9223372036854775807"
  shows "db (snd (save_to_sqlite Healthy topic parameters content s)) =
           Some \<lparr>rows = rows t @ [\<lparr>row_id = autoinc t + 1, row_topic = topic,
                                   row_parameters = parameters, row_content = content\<rparr>],
                 autoinc = autoinc t + 1\<rparr>"
  using assms by (simp add: save_healthy largest_is_autoinc print_def)

subsection \<open>Once the connection is open, nothing is raised and the connection is closed\<close>

lemma released_init_db:
  "f \<noteq> AtConnect \<Longrightarrow>
     fst (init_db f s) = Inr () \<and> open_conns (snd (init_db f s)) = open_conns s"
  by (cases f) (simp_all add: fun_defs call_defs split: option.splits)

lemma released_check_table_exists:
  "f \<noteq> AtConnect \<Longrightarrow>
     (\<exists>v. fst (check_table_exists f s) = Inr v) \<and>
     open_conns (snd (check_table_exists f s)) = open_conns s"
  by (cases f) (auto simp add: fun_defs call_defs split: option.splits)

lemma released_save_to_sqlite:
  "f \<noteq> AtConnect \<Longrightarrow>
     fst (save_to_sqlite f topic parameters content s) = Inr () \<and>
     open_conns (snd (save_to_sqlite f topic parameters content s)) = open_conns s"
  by (cases f) (simp_all add: fun_defs call_defs Let_def split: option.splits)

lemma released_retrieve_from_sqlite:
  "f \<noteq> AtConnect \<Longrightarrow>
     (\<exists>v. fst (retrieve_from_sqlite f topic parameters s) = Inr v) \<and>
     open_conns (snd (retrieve_from_sqlite f topic parameters s)) = open_conns s"
  by (cases f) (simp_all add: fun_defs call_defs split: option.splits list.splits)

lemma released_delete_from_sqlite:
  "f \<noteq> AtConnect \<Longrightarrow>
     (\<exists>v. fst (delete_from_sqlite f topic parameters s) = Inr v) \<and>
     open_conns (snd (delete_from_sqlite f topic parameters s)) = open_conns s"
  by (cases f) (simp_all add: fun_defs call_defs split: option.splits)

lemma released_retrieve_all_data:
  "f \<noteq> AtConnect \<Longrightarrow>
     (\<exists>v. fst (retrieve_all_data f s) = Inr v) \<and>
     open_conns (snd (retrieve_all_data f s)) = open_conns s"
  by (cases f) (simp_all add: fun_defs call_defs split: option.splits)

lemma released_update_sqlite:
  "f \<noteq> AtConnect \<Longrightarrow>
     (\<exists>v. fst (update_sqlite f topic parameters new_content s) = Inr v) \<and>
     open_conns (snd (update_sqlite f topic parameters new_content s)) = open_conns s"
  by (cases f) (simp_all add: fun_defs call_defs split: option.splits)

lemma retrieve_no_match:
  "f \<noteq> AtConnect \<Longrightarrow> f \<noteq> AtExecute \<Longrightarrow> f \<noteq> AtFetch \<Longrightarrow> db s = Some t \<Longrightarrow>
   filter (key_matches topic parameters) (rows t) = [] \<Longrightarrow>
   fst (retrieve_from_sqlite f topic parameters s) =
     Inr ''No content found for the given topic and parameters.''"
  by (cases f) (simp_all add: fun_defs call_defs)

lemma retrieve_statement_failure:
  "f = AtExecute \<or> f = AtFetch \<or> db s = None \<Longrightarrow> f \<noteq> AtConnect \<Longrightarrow>
   fst (retrieve_from_sqlite f topic parameters s) =
     Inr ''An error occurred while retrieving the content.''"
  by (cases f) (auto simp add: fun_defs call_defs split: option.splits)

lemma retrieve_all_statement_failure:
  "f = AtExecute \<or> f = AtFetch \<or> db s = None \<Longrightarrow> f \<noteq> AtConnect \<Longrightarrow>
   fst (retrieve_all_data f s) = Inr []"
  by (cases f) (auto simp add: fun_defs call_defs split: option.splits)

subsection \<open>Every function keeps the table well-formed\<close>

lemma store_inv_append:
  assumes "store_inv t"
  shows "store_inv \<lparr>rows = rows t @ [\<lparr>row_id = autoinc t + 1, row_topic = topic,
                                   row_parameters = parameters, row_content = content\<rparr>],
                 autoinc = autoinc t + 1\<rparr>"
  using assms by (fastforce simp add: store_inv_def sorted_wrt_append list_all_iff)

lemma store_inv_distinct: "store_inv t \<Longrightarrow> distinct (map row_id (rows t))"
  by (simp add: store_inv_def strict_sorted_iff)

lemma init_db_db:
  "db (snd (init_db f s)) = db s \<or> db (snd (init_db f s)) = Some \<lparr>rows = [], autoinc = 0\<rparr>"
  by (cases f) (simp_all add: fun_defs call_defs split: option.splits)

lemma delete_db:
  "db s = Some t \<Longrightarrow>
   db (snd (delete_from_sqlite f topic parameters s)) = Some t \<or>
   db (snd (delete_from_sqlite f topic parameters s)) =
     Some (t\<lparr>rows := filter (\<lambda>r. \<not> key_matches topic parameters r) (rows t)\<rparr>)"
  by (cases f) (simp_all add: fun_defs call_defs)

lemma update_db:
  "db s = Some t \<Longrightarrow>
   db (snd (update_sqlite f topic parameters new_content s)) = Some t \<or>
   db (snd (update_sqlite f topic parameters new_content s)) =
     Some (t\<lparr>rows := map (\<lambda>r. if key_matches topic parameters r
                             then r\<lparr>row_content := new_content\<rparr> else r) (rows t)\<rparr>)"
  by (cases f) (simp_all add: fun_defs call_defs)

lemma save_db:
  "db s = Some t \<Longrightarrow> store_inv t \<Longrightarrow>
   db (snd (save_to_sqlite f topic parameters content s)) = Some t \<or>
   db (snd (save_to_sqlite f topic parameters content s)) =
     Some \<lparr>rows = rows t @ [\<lparr>row_id = autoinc t + 1, row_topic = topic,
                             row_parameters = parameters, row_content = content\<rparr>],
           autoinc = autoinc t + 1\<rparr>"
  by (cases f) (simp_all add: fun_defs call_defs Let_def largest_is_autoinc)

lemma sorted_wrt_filter_ids:
  "sorted_wrt (<) (map row_id xs) \<Longrightarrow> sorted_wrt (<) (map row_id (filter P xs))"
  by (induction xs) auto

lemma map_ids_update:
  "row_id \<circ> (\<lambda>r. if P r then r\<lparr>row_content := c\<rparr> else r) = row_id"
  by (auto simp add: fun_eq_iff)

lemma store_inv_init_db:
  assumes "\<And>t. db s = Some t \<Longrightarrow> store_inv t" and "db (snd (init_db f s)) = Some t'"
  shows "store_inv t'"
  using assms init_db_db [of f s] by (auto simp add: store_inv_def)

lemma store_inv_delete:
  assumes "db s = Some t" and "store_inv t"
    and "db (snd (delete_from_sqlite f topic parameters s)) = Some t'"
  shows "store_inv t'"
  using assms delete_db [OF assms(1), of f topic parameters]
  by (auto simp add: store_inv_def list_all_iff sorted_wrt_filter_ids)

lemma store_inv_update:
  assumes "db s = Some t" and "store_inv t"
    and "db (snd (update_sqlite f topic parameters new_content s)) = Some t'"
  shows "store_inv t'"
  using assms update_db [OF assms(1), of f topic parameters new_content]
  by (auto simp add: store_inv_def list_all_iff map_ids_update)

lemma store_inv_save:
  assumes "db s = Some t" and "store_inv t"
    and "db (snd (save_to_sqlite f topic parameters content s)) = Some t'"
  shows "store_inv t'"
  using assms save_db [OF assms(1,2), of f topic parameters content]
    store_inv_append [OF assms(2), of topic parameters content]
  by auto

lemma first_match_least:
  "sorted_wrt (<) (map row_id xs) \<Longrightarrow> filter P xs = r # rest \<Longrightarrow>
     r \<in> set xs \<and> P r \<and> (\<forall>r' \<in> set xs. P r' \<longrightarrow> row_id r \<le> row_id r')"
proof (induction xs)
  case Nil
  then show ?case by simp
next
  case (Cons x xs)
  show ?case
  proof (cases "P x")
    case True
    with Cons.prems have "r = x" by simp
    with True Cons.prems(1) show ?thesis by auto
  next
    case False
    with Cons.prems have "filter P xs = r # rest" by simp
    moreover from Cons.prems(1) have "sorted_wrt (<) (map row_id xs)" by simp
    ultimately have "r \<in> set xs \<and> P r \<and> (\<forall>r' \<in> set xs. P r' \<longrightarrow> row_id r \<le> row_id r')"
      by (rule Cons.IH [rotated])
    with False show ?thesis by auto
  qed
qed

lemma no_match_map_id:
  "filter (key_matches topic parameters) xs = [] \<Longrightarrow>
   map (\<lambda>r. if key_matches topic parameters r then r\<lparr>row_content := c\<rparr> else r) xs = xs"
  by (induction xs) (auto split: if_splits)

lemma save_all_rows:
  "db s = Some t \<Longrightarrow> store_inv t \<Longrightarrow>
   autoinc t + int (length recs) \<le> 9223372036854775807 \<Longrightarrow>
   \<exists>t' new. db (save_all recs s) = Some t' \<and> store_inv t' \<and> rows t' = rows t @ new \<and>
     map (\<lambda>r. (row_topic r, row_parameters r, row_content r)) new = recs"
proof (induction recs arbitrary: s t)
  case Nil
  then show ?case by simp
next
  case (Cons rec recs)
  obtain topic parameters content where rec: "rec = (topic, parameters, content)"
    by (cases rec)
  let ?new = "\<lparr>row_id = autoinc t + 1, row_topic = topic,
               row_parameters = parameters, row_content = content\<rparr>"
  let ?t1 = "\<lparr>rows = rows t @ [?new], autoinc = autoinc t + 1\<rparr>"
  let ?s1 = "snd (save_to_sqlite Healthy topic parameters content s)"
  from Cons.prems have room: "autoinc t < 9223372036854775807" by simp
  have db1: "db ?s1 = Some ?t1" using Cons.prems(1,2) room by (rule save_step)
  have inv1: "store_inv ?t1" using Cons.prems(2) by (rule store_inv_append)
  have room1: "autoinc ?t1 + int (length recs) \<le> 9223372036854775807"
    using Cons.prems(3) by simp
  from Cons.IH [OF db1 inv1 room1]
  obtain t' new where t': "db (save_all recs ?s1) = Some t'" "store_inv t'"
      "rows t' = rows ?t1 @ new"
      "map (\<lambda>r. (row_topic r, row_parameters r, row_content r)) new = recs"
    by blast
  have "db (save_all (rec # recs) s) = Some t' \<and> store_inv t' \<and>
      rows t' = rows t @ (?new # new) \<and>
      map (\<lambda>r. (row_topic r, row_parameters r, row_content r)) (?new # new) = rec # recs"
    using t' rec by simp
  then show ?case by (intro exI)
qed

subsection \<open>Save, then retrieve\<close>

text \<open>
  Claim C1. On a well-formed table with room for one more rowid and a healthy engine,
  \<open>save_to_sqlite\<close> followed by \<open>retrieve_from_sqlite\<close> with the same topic and
  parameters returns the saved content when no row of the table had that key before.
  In every case it returns the current content of a row that has the key and whose
  rowid is the least among the rows with the key: the row inserted first.
\<close>

theorem save_then_retrieve:
  assumes "db s = Some t" and "store_inv t" and "autoinc t < 9223372036854775807"
  shows "(filter (key_matches topic parameters) (rows t) = [] \<longrightarrow>
            fst (retrieve_from_sqlite Healthy topic parameters
                   (snd (save_to_sqlite Healthy topic parameters content s))) = Inr content) \<and>
         (\<exists>t' r. db (snd (save_to_sqlite Healthy topic parameters content s)) = Some t' \<and>
            r \<in> set (rows t') \<and> key_matches topic parameters r \<and>
            (\<forall>r' \<in> set (rows t'). key_matches topic parameters r' \<longrightarrow> row_id r \<le> row_id r') \<and>
            fst (retrieve_from_sqlite Healthy topic parameters
                   (snd (save_to_sqlite Healthy topic parameters content s))) =
              Inr (row_content r))"
proof -
  let ?new = "\<lparr>row_id = autoinc t + 1, row_topic = topic,
               row_parameters = parameters, row_content = content\<rparr>"
  let ?t' = "\<lparr>rows = rows t @ [?new], autoinc = autoinc t + 1\<rparr>"
  let ?s' = "snd (save_to_sqlite Healthy topic parameters content s)"
  have db': "db ?s' = Some ?t'" using assms by (rule save_step)
  have new: "key_matches topic parameters ?new" by (simp add: key_matches_def)
  obtain r rest where f: "filter (key_matches topic parameters) (rows ?t') = r # rest"
    using new by (cases "filter (key_matches topic parameters) (rows t)") simp_all
  have res: "fst (retrieve_from_sqlite Healthy topic parameters ?s') = Inr (row_content r)"
    using retrieve_healthy [OF db', of topic parameters] f by simp
  have "store_inv ?t'" using assms(2) by (rule store_inv_append)
  then have "sorted_wrt (<) (map row_id (rows ?t'))" by (simp add: store_inv_def)
  from first_match_least [OF this f]
  have least: "r \<in> set (rows ?t') \<and> key_matches topic parameters r \<and>
      (\<forall>r' \<in> set (rows ?t'). key_matches topic parameters r' \<longrightarrow> row_id r \<le> row_id r')" .
  have first: "filter (key_matches topic parameters) (rows t) = [] \<Longrightarrow> r = ?new"
    using f new by simp
  from first res have "filter (key_matches topic parameters) (rows t) = [] \<longrightarrow>
      fst (retrieve_from_sqlite Healthy topic parameters ?s') = Inr content"
    by auto
  moreover from db' least res
  have "\<exists>t' r. db ?s' = Some t' \<and> r \<in> set (rows t') \<and> key_matches topic parameters r \<and>
      (\<forall>r' \<in> set (rows t'). key_matches topic parameters r' \<longrightarrow> row_id r \<le> row_id r') \<and>
      fst (retrieve_from_sqlite Healthy topic parameters ?s') = Inr (row_content r)"
    by blast
  ultimately show ?thesis by blast
qed

theorem save_then_retrieve_witness:
  "db \<lparr>db = Some \<lparr>rows = [], autoinc = 0\<rparr>, out = [], open_conns = 0\<rparr> =
     Some \<lparr>rows = [], autoinc = 0\<rparr> \<and>
   store_inv \<lparr>rows = [], autoinc = 0\<rparr> \<and>
   fst (retrieve_from_sqlite Healthy ''RELIANCE'' ''100000-Moderate-Value''
          (snd (save_to_sqlite Healthy ''RELIANCE'' ''100000-Moderate-Value'' ''text A''
                  \<lparr>db = Some \<lparr>rows = [], autoinc = 0\<rparr>, out = [], open_conns = 0\<rparr>))) =
     Inr ''text A''"
  using save_then_retrieve [of "\<lparr>db = Some \<lparr>rows = [], autoinc = 0\<rparr>, out = [], open_conns = 0\<rparr>"
      "\<lparr>rows = [], autoinc = 0\<rparr>" "''RELIANCE''" "''100000-Moderate-Value''" "''text A''"]
  by (simp add: store_inv_def)

subsection \<open>A failing \<^verbatim>\<open>sqlite3.connect\<close>\<close>

text \<open>
  Claim C2. The claim is that no exception escapes any of the seven functions, also when
  opening the connection fails, and that the connection is released on every path. In
  the code \<^verbatim>\<open>conn\<close> is assigned inside the \<^verbatim>\<open>try\<close> block, so when
  \<^verbatim>\<open>sqlite3.connect\<close> raises, the handler runs and then \<^verbatim>\<open>conn.close()\<close> in the
  \<^verbatim>\<open>finally\<close> block reads an unbound variable: each function ends with an
  \<^verbatim>\<open>UnboundLocalError\<close>, which no handler catches. (Once the connection is open, the
  lemmas \<open>released_init_db\<close> to \<open>released_update_sqlite\<close> above show that nothing is
  raised and the connection is closed.)
\<close>

theorem connect_failure_escapes:
  "fst (init_db AtConnect s) = Inl UnboundLocalError
   \<and> fst (check_table_exists AtConnect s) = Inl UnboundLocalError
   \<and> fst (save_to_sqlite AtConnect topic parameters content s) = Inl UnboundLocalError
   \<and> fst (retrieve_from_sqlite AtConnect topic parameters s) = Inl UnboundLocalError
   \<and> fst (delete_from_sqlite AtConnect topic parameters s) = Inl UnboundLocalError
   \<and> fst (retrieve_all_data AtConnect s) = Inl UnboundLocalError
   \<and> fst (update_sqlite AtConnect topic parameters new_content s) = Inl UnboundLocalError"
  by (simp add: fun_defs call_defs)

subsection \<open>Update\<close>

text \<open>
  Claim C3. With the table present and a healthy engine, \<open>update_sqlite\<close> on a key
  that no row has returns the not-found message and leaves the table as it was; on a
  key that some row has it returns the updated message. In both cases the table keeps
  its length, and every row with the key (not only the first) has the new content,
  while every other row is unchanged.
\<close>

theorem update_all_matching:
  assumes "db s = Some t"
  shows "(filter (key_matches topic parameters) (rows t) = [] \<longrightarrow>
            fst (update_sqlite Healthy topic parameters new_content s) =
              Inr ''No matching content found to update.'' \<and>
            db (snd (update_sqlite Healthy topic parameters new_content s)) = Some t) \<and>
         (filter (key_matches topic parameters) (rows t) \<noteq> [] \<longrightarrow>
            fst (update_sqlite Healthy topic parameters new_content s) =
              Inr ''Content updated successfully.'') \<and>
         (\<exists>t'. db (snd (update_sqlite Healthy topic parameters new_content s)) = Some t' \<and>
            length (rows t') = length (rows t) \<and> autoinc t' = autoinc t \<and>
            (\<forall>i < length (rows t).
               rows t' ! i =
                 (if key_matches topic parameters (rows t ! i)
                  then (rows t ! i)\<lparr>row_content := new_content\<rparr> else rows t ! i)))"
proof -
  have nomatch: "\<not> key_matches topic parameters (rows t ! i)"
    if "filter (key_matches topic parameters) (rows t) = []" and "i < length (rows t)" for i
    using that by (auto simp add: filter_empty_conv)
  show ?thesis
    using assms nomatch by (auto simp add: update_healthy print_def no_match_map_id)
qed

theorem update_all_matching_witness:
  "db \<lparr>db = Some \<lparr>rows =
           [\<lparr>row_id = 1, row_topic = ''A'', row_parameters = ''p'', row_content = ''x''\<rparr>,
            \<lparr>row_id = 2, row_topic = ''A'', row_parameters = ''p'', row_content = ''y''\<rparr>],
           autoinc = 2\<rparr>, out = [], open_conns = 0\<rparr> =
     Some \<lparr>rows =
           [\<lparr>row_id = 1, row_topic = ''A'', row_parameters = ''p'', row_content = ''x''\<rparr>,
            \<lparr>row_id = 2, row_topic = ''A'', row_parameters = ''p'', row_content = ''y''\<rparr>],
           autoinc = 2\<rparr> \<and>
   fst (update_sqlite Healthy ''A'' ''p'' ''z''
          \<lparr>db = Some \<lparr>rows =
             [\<lparr>row_id = 1, row_topic = ''A'', row_parameters = ''p'', row_content = ''x''\<rparr>,
              \<lparr>row_id = 2, row_topic = ''A'', row_parameters = ''p'', row_content = ''y''\<rparr>],
             autoinc = 2\<rparr>, out = [], open_conns = 0\<rparr>) =
     Inr ''Content updated successfully.''"
  using update_all_matching [of
      "\<lparr>db = Some \<lparr>rows =
         [\<lparr>row_id = 1, row_topic = ''A'', row_parameters = ''p'', row_content = ''x''\<rparr>,
          \<lparr>row_id = 2, row_topic = ''A'', row_parameters = ''p'', row_content = ''y''\<rparr>],
         autoinc = 2\<rparr>, out = [], open_conns = 0\<rparr>"
      "\<lparr>rows =
         [\<lparr>row_id = 1, row_topic = ''A'', row_parameters = ''p'', row_content = ''x''\<rparr>,
          \<lparr>row_id = 2, row_topic = ''A'', row_parameters = ''p'', row_content = ''y''\<rparr>],
         autoinc = 2\<rparr>" "''A''" "''p''" "''z''"]
  by (simp add: key_matches_def)

subsection \<open>Delete\<close>

text \<open>
  Claim C4. With the table present and a healthy engine, \<open>delete_from_sqlite\<close> removes
  every row with the key and keeps the others; it returns the deleted message when at
  least one row had the key and the not-found message otherwise; and a second call with
  the same key, made on the state the first call leaves, returns the not-found message.
\<close>

theorem delete_all_matching:
  assumes "db s = Some t"
  shows "(filter (key_matches topic parameters) (rows t) \<noteq> [] \<longrightarrow>
            fst (delete_from_sqlite Healthy topic parameters s) =
              Inr ''Content deleted successfully.'') \<and>
         (filter (key_matches topic parameters) (rows t) = [] \<longrightarrow>
            fst (delete_from_sqlite Healthy topic parameters s) =
              Inr ''No content found to delete for the given topic and parameters.'') \<and>
         (\<exists>t'. db (snd (delete_from_sqlite Healthy topic parameters s)) = Some t' \<and>
            rows t' = filter (\<lambda>r. \<not> key_matches topic parameters r) (rows t) \<and>
            filter (key_matches topic parameters) (rows t') = [] \<and>
            autoinc t' = autoinc t) \<and>
         fst (delete_from_sqlite Healthy topic parameters
                (snd (delete_from_sqlite Healthy topic parameters s))) =
           Inr ''No content found to delete for the given topic and parameters.''"
proof -
  let ?t' = "t\<lparr>rows := filter (\<lambda>r. \<not> key_matches topic parameters r) (rows t)\<rparr>"
  let ?s' = "snd (delete_from_sqlite Healthy topic parameters s)"
  have gone: "filter (key_matches topic parameters) (rows ?t') = []" by simp
  have db': "db ?s' = Some ?t'" using assms by (simp add: delete_healthy print_def)
  have again: "fst (delete_from_sqlite Healthy topic parameters ?s') =
      Inr ''No content found to delete for the given topic and parameters.''"
    using delete_healthy [OF db', of topic parameters] gone by simp
  have first: "fst (delete_from_sqlite Healthy topic parameters s) =
      (if filter (key_matches topic parameters) (rows t) \<noteq> []
       then Inr ''Content deleted successfully.''
       else Inr ''No content found to delete for the given topic and parameters.'')"
    using assms by (simp add: delete_healthy)
  from first again db' gone show ?thesis by simp
qed

theorem delete_all_matching_witness:
  "db \<lparr>db = Some \<lparr>rows =
           [\<lparr>row_id = 1, row_topic = ''A'', row_parameters = ''p'', row_content = ''x''\<rparr>],
           autoinc = 1\<rparr>, out = [], open_conns = 0\<rparr> =
     Some \<lparr>rows =
           [\<lparr>row_id = 1, row_topic = ''A'', row_parameters = ''p'', row_content = ''x''\<rparr>],
           autoinc = 1\<rparr> \<and>
   fst (delete_from_sqlite Healthy ''A'' ''p''
          \<lparr>db = Some \<lparr>rows =
             [\<lparr>row_id = 1, row_topic = ''A'', row_parameters = ''p'', row_content = ''x''\<rparr>],
             autoinc = 1\<rparr>, out = [], open_conns = 0\<rparr>) =
     Inr ''Content deleted successfully.'' \<and>
   fst (delete_from_sqlite Healthy ''A'' ''p''
          (snd (delete_from_sqlite Healthy ''A'' ''p''
             \<lparr>db = Some \<lparr>rows =
                [\<lparr>row_id = 1, row_topic = ''A'', row_parameters = ''p'', row_content = ''x''\<rparr>],
                autoinc = 1\<rparr>, out = [], open_conns = 0\<rparr>))) =
     Inr ''No content found to delete for the given topic and parameters.''"
  using delete_all_matching [of
      "\<lparr>db = Some \<lparr>rows =
         [\<lparr>row_id = 1, row_topic = ''A'', row_parameters = ''p'', row_content = ''x''\<rparr>],
         autoinc = 1\<rparr>, out = [], open_conns = 0\<rparr>"
      "\<lparr>rows =
         [\<lparr>row_id = 1, row_topic = ''A'', row_parameters = ''p'', row_content = ''x''\<rparr>],
         autoinc = 1\<rparr>" "''A''" "''p''"]
  by (simp add: key_matches_def)

subsection \<open>Retrieve when the connection cannot be opened\<close>

text \<open>
  Claim C5. The claim is that \<open>retrieve_from_sqlite\<close> never raises: it returns the
  not-found message when no row has the key, and a distinguished error value when the
  engine fails. When the engine fails in \<^verbatim>\<open>sqlite3.connect\<close>, the handler prints
  the error and is about to return the error value, but \<^verbatim>\<open>conn.close()\<close> in the
  \<^verbatim>\<open>finally\<close> block raises \<^verbatim>\<open>UnboundLocalError\<close> instead. (With the connection
  open the claim holds: \<open>retrieve_no_match\<close>, \<open>retrieve_statement_failure\<close> and
  \<open>released_retrieve_from_sqlite\<close> above.)
\<close>

theorem retrieve_connect_failure_raises:
  "retrieve_from_sqlite AtConnect topic parameters s =
     (Inl UnboundLocalError,
      print ''Error retrieving content from SQLite: unable to open database file'' s)"
  by (simp add: fun_defs call_defs)

subsection \<open>A failing statement in \<open>init_db\<close>\<close>

text \<open>
  Claim C6, as amended. \<open>init_db\<close> does not report a storage failure to its caller:
  whenever the connection has been opened it returns normally and closes the connection,
  and when the engine fails at the \<^verbatim>\<open>CREATE TABLE\<close> statement the only effect of the
  call is the printed line \<^verbatim>\<open>Error initializing database: ...\<close>.
\<close>

theorem init_db_statement_failure:
  "(f \<noteq> AtConnect \<longrightarrow>
      fst (init_db f s) = Inr () \<and> open_conns (snd (init_db f s)) = open_conns s) \<and>
   init_db AtExecute s = (Inr (), print ''Error initializing database: disk I/O error'' s)"
  using released_init_db [of f s] by (simp add: fun_defs call_defs)

theorem init_db_statement_failure_witness:
  "AtExecute \<noteq> AtConnect \<and>
   fst (init_db AtExecute \<lparr>db = None, out = [], open_conns = 0\<rparr>) = Inr () \<and>
   open_conns (snd (init_db AtExecute \<lparr>db = None, out = [], open_conns = 0\<rparr>)) = 0"
  using init_db_statement_failure [of AtExecute "\<lparr>db = None, out = [], open_conns = 0\<rparr>"]
  by (simp add: print_def)

text \<open>
  The claim as stated, that \<open>init_db\<close> fails visibly whenever the file cannot be
  prepared, is false where the engine fails at the statement: the call returns normally.
\<close>

theorem init_db_statement_failure_counterexample:
  "init_db AtExecute \<lparr>db = None, out = [], open_conns = 0\<rparr> =
     (Inr (), \<lparr>db = None, out = [''Error initializing database: disk I/O error''],
               open_conns = 0\<rparr>)"
  by (simp add: fun_defs call_defs)

subsection \<open>Calling \<open>init_db\<close> again\<close>

text \<open>
  Claim C7. Calling \<open>init_db\<close> any number \<open>n \<ge> 1\<close> of times with a healthy engine
  leaves the one table \<^verbatim>\<open>analysis_data\<close> in place, empty if it did not exist and
  with its rows as they were if it did, which is the state a single call leaves. And
  whatever the engine does, a call of \<open>init_db\<close> on an existing table leaves the table
  and its rows as they were.
\<close>

theorem init_db_idempotent:
  "(0 < n \<longrightarrow>
      db (((\<lambda>s. snd (init_db Healthy s)) ^^ n) s) =
        Some (case db s of None \<Rightarrow> \<lparr>rows = [], autoinc = 0\<rparr> | Some t \<Rightarrow> t) \<and>
      db (((\<lambda>s. snd (init_db Healthy s)) ^^ n) s) = db (snd (init_db Healthy s))) \<and>
   (db s = Some t \<longrightarrow> db (snd (init_db f s)) = Some t)"
proof -
  have step: "db (((\<lambda>s. snd (init_db Healthy s)) ^^ Suc k) s) =
      Some (case db s of None \<Rightarrow> \<lparr>rows = [], autoinc = 0\<rparr> | Some t \<Rightarrow> t)" for k
  proof (induction k)
    case 0
    show ?case by (simp add: init_db_healthy)
  next
    case (Suc k)
    have "db (((\<lambda>s. snd (init_db Healthy s)) ^^ Suc (Suc k)) s) =
        db (snd (init_db Healthy (((\<lambda>s. snd (init_db Healthy s)) ^^ Suc k) s)))"
      by simp
    also have "\<dots> = Some (case db s of None \<Rightarrow> \<lparr>rows = [], autoinc = 0\<rparr> | Some t \<Rightarrow> t)"
      by (rule init_db_keeps) (rule Suc.IH)
    finally show ?case .
  qed
  have "0 < n \<Longrightarrow> \<exists>k. n = Suc k" by (cases n) simp_all
  with step init_db_healthy [of s] init_db_keeps [of s t f] show ?thesis by auto
qed

theorem init_db_idempotent_witness:
  "(0::nat) < 3 \<and>
   db (((\<lambda>s. snd (init_db Healthy s)) ^^ 3)
         \<lparr>db = Some \<lparr>rows =
            [\<lparr>row_id = 1, row_topic = ''A'', row_parameters = ''p'', row_content = ''x''\<rparr>],
            autoinc = 1\<rparr>, out = [], open_conns = 0\<rparr>) =
     Some \<lparr>rows =
        [\<lparr>row_id = 1, row_topic = ''A'', row_parameters = ''p'', row_content = ''x''\<rparr>],
        autoinc = 1\<rparr> \<and>
   db (snd (init_db AtExecute
         \<lparr>db = Some \<lparr>rows =
            [\<lparr>row_id = 1, row_topic = ''A'', row_parameters = ''p'', row_content = ''x''\<rparr>],
            autoinc = 1\<rparr>, out = [], open_conns = 0\<rparr>)) =
     Some \<lparr>rows =
        [\<lparr>row_id = 1, row_topic = ''A'', row_parameters = ''p'', row_content = ''x''\<rparr>],
        autoinc = 1\<rparr>"
  using init_db_idempotent [where n = 3 and f = AtExecute
      and s = "\<lparr>db = Some \<lparr>rows =
            [\<lparr>row_id = 1, row_topic = ''A'', row_parameters = ''p'', row_content = ''x''\<rparr>],
            autoinc = 1\<rparr>, out = [], open_conns = 0\<rparr>"
      and t = "\<lparr>rows =
        [\<lparr>row_id = 1, row_topic = ''A'', row_parameters = ''p'', row_content = ''x''\<rparr>],
        autoinc = 1\<rparr>"]
  by simp

subsection \<open>Listing all records\<close>

text \<open>
  With the connection open \<open>retrieve_all_data\<close> lists the table. On a well-formed
  table: after saving \<open>n\<close> records (while rowids remain) it returns the rows that were
  there followed by exactly those \<open>n\<close> records in the order saved, all rowids distinct;
  a delete by key lowers the number of records returned by the number of records that
  have the key, so by exactly one when one record has it; and on an empty table, or when
  the read statement or the fetch fails, it returns the empty list.
\<close>

lemma list_all_with_open_connection:
  assumes "db s = Some t" and "store_inv t"
  shows "(autoinc t + int (length recs) \<le> 9223372036854775807 \<longrightarrow>
            (\<exists>new. fst (retrieve_all_data Healthy (save_all recs s)) = Inr (rows t @ new) \<and>
               map (\<lambda>r. (row_topic r, row_parameters r, row_content r)) new = recs \<and>
               distinct (map row_id (rows t @ new)))) \<and>
         (\<exists>before after.
            fst (retrieve_all_data Healthy s) = Inr before \<and>
            fst (retrieve_all_data Healthy (snd (delete_from_sqlite Healthy topic parameters s))) =
              Inr after \<and>
            length after + length (filter (key_matches topic parameters) before) = length before \<and>
            (length (filter (key_matches topic parameters) before) = 1 \<longrightarrow>
               length after + 1 = length before)) \<and>
         (rows t = [] \<longrightarrow> fst (retrieve_all_data Healthy s) = Inr []) \<and>
         fst (retrieve_all_data AtExecute s) = Inr [] \<and>
         fst (retrieve_all_data AtFetch s) = Inr []"
proof -
  have saves: "\<exists>new. fst (retrieve_all_data Healthy (save_all recs s)) = Inr (rows t @ new) \<and>
      map (\<lambda>r. (row_topic r, row_parameters r, row_content r)) new = recs \<and>
      distinct (map row_id (rows t @ new))"
    if room: "autoinc t + int (length recs) \<le> 9223372036854775807"
  proof -
    from save_all_rows [OF assms room]
    obtain t' new where t': "db (save_all recs s) = Some t'" "store_inv t'"
        "rows t' = rows t @ new"
        "map (\<lambda>r. (row_topic r, row_parameters r, row_content r)) new = recs"
      by blast
    have "fst (retrieve_all_data Healthy (save_all recs s)) = Inr (rows t @ new)"
      using retrieve_all_healthy [OF t'(1)] t'(3) by simp
    moreover have "distinct (map row_id (rows t @ new))"
      using store_inv_distinct [OF t'(2)] t'(3) by simp
    ultimately show ?thesis using t'(4) by blast
  qed
  let ?t' = "t\<lparr>rows := filter (\<lambda>r. \<not> key_matches topic parameters r) (rows t)\<rparr>"
  have db': "db (snd (delete_from_sqlite Healthy topic parameters s)) = Some ?t'"
    using assms(1) by (simp add: delete_healthy print_def)
  have count: "length (rows ?t') + length (filter (key_matches topic parameters) (rows t)) =
      length (rows t)"
    using sum_length_filter_compl [of "key_matches topic parameters" "rows t"] by simp
  have deletes: "\<exists>before after.
      fst (retrieve_all_data Healthy s) = Inr before \<and>
      fst (retrieve_all_data Healthy (snd (delete_from_sqlite Healthy topic parameters s))) =
        Inr after \<and>
      length after + length (filter (key_matches topic parameters) before) = length before \<and>
      (length (filter (key_matches topic parameters) before) = 1 \<longrightarrow>
         length after + 1 = length before)"
    using retrieve_all_healthy [OF assms(1)] retrieve_all_healthy [OF db'] count by auto
  have empty: "rows t = [] \<longrightarrow> fst (retrieve_all_data Healthy s) = Inr []"
    using retrieve_all_healthy [OF assms(1)] by simp
  have fails: "fst (retrieve_all_data AtExecute s) = Inr []"
      "fst (retrieve_all_data AtFetch s) = Inr []"
    by (rule retrieve_all_statement_failure; simp)+
  from saves deletes empty fails show ?thesis by blast
qed

text \<open>
  Claim C8. The claim is that \<open>retrieve_all_data\<close> returns the records saved, that
  deleting one record lowers the count by one, and that on an empty store or an
  engine-level read failure it returns the empty list, never an error value and never a
  raised fault. When the engine fails in \<^verbatim>\<open>sqlite3.connect\<close>, the handler prints the
  error and is about to return the empty list, but \<^verbatim>\<open>conn.close()\<close> in the
  \<^verbatim>\<open>finally\<close> block raises \<^verbatim>\<open>UnboundLocalError\<close> instead. (With the connection
  open the claim holds: \<open>list_all_with_open_connection\<close> and
  \<open>released_retrieve_all_data\<close> above.)
\<close>

theorem retrieve_all_data_connect_failure_raises:
  "retrieve_all_data AtConnect s =
     (Inl UnboundLocalError,
      print ''Error retrieving all records: unable to open database file'' s)"
  by (simp add: fun_defs call_defs)

subsection \<open>What update leaves alone\<close>

text \<open>
  Claim C9. Whatever the engine does, \<open>update_sqlite\<close> leaves the rowid, the topic and
  the parameters of every row as they were, row by row, and also the rowid counter:
  only contents are rewritten.
\<close>

theorem update_keeps_key_fields:
  "map_option (\<lambda>t. (map (\<lambda>r. (row_id r, row_topic r, row_parameters r)) (rows t), autoinc t))
       (db (snd (update_sqlite f topic parameters new_content s))) =
   map_option (\<lambda>t. (map (\<lambda>r. (row_id r, row_topic r, row_parameters r)) (rows t), autoinc t))
       (db s)"
  by (cases f) (auto simp add: fun_defs call_defs split: option.splits)

subsection \<open>The not-found message is a possible content\<close>

text \<open>
  Claim C10. The not-found value of \<open>retrieve_from_sqlite\<close> is the ordinary string
  \<^verbatim>\<open>No content found for the given topic and parameters.\<close> On a well-formed table
  with no row for the key, \<open>retrieve_from_sqlite\<close> returns that string; after saving
  that very string under the key the table has exactly one row with the key, whose
  content is the string, and \<open>retrieve_from_sqlite\<close> returns it: the same value with
  and without a matching row. Likewise the value returned when the statement fails is
  the ordinary string \<^verbatim>\<open>An error occurred while retrieving the content.\<close>, and
  saved as content it comes back as that same value.
\<close>

theorem not_found_sentinel_is_ordinary_content:
  assumes "db s = Some t" and "store_inv t" and "autoinc t < 9223372036854775807"
    and "filter (key_matches topic parameters) (rows t) = []"
  shows "fst (retrieve_from_sqlite Healthy topic parameters s) =
           Inr ''No content found for the given topic and parameters.'' \<and>
         fst (retrieve_from_sqlite Healthy topic parameters
                (snd (save_to_sqlite Healthy topic parameters
                        ''No content found for the given topic and parameters.'' s))) =
           Inr ''No content found for the given topic and parameters.'' \<and>
         (\<exists>t' r. db (snd (save_to_sqlite Healthy topic parameters
                        ''No content found for the given topic and parameters.'' s)) = Some t' \<and>
               filter (key_matches topic parameters) (rows t') = [r] \<and>
               row_content r = ''No content found for the given topic and parameters.'') \<and>
         fst (retrieve_from_sqlite Healthy topic parameters
                (snd (save_to_sqlite Healthy topic parameters
                        ''No content found for the given topic and parameters.'' s))) =
         fst (retrieve_from_sqlite Healthy topic parameters s) \<and>
         fst (retrieve_from_sqlite AtExecute topic parameters s) =
           Inr ''An error occurred while retrieving the content.'' \<and>
         fst (retrieve_from_sqlite Healthy topic parameters
                (snd (save_to_sqlite Healthy topic parameters
                        ''An error occurred while retrieving the content.'' s))) =
           Inr ''An error occurred while retrieving the content.'' \<and>
         fst (retrieve_from_sqlite Healthy topic parameters
                (snd (save_to_sqlite Healthy topic parameters
                        ''An error occurred while retrieving the content.'' s))) =
         fst (retrieve_from_sqlite AtExecute topic parameters s)"
proof -
  have db': "db (snd (save_to_sqlite Healthy topic parameters c s)) =
      Some \<lparr>rows = rows t @ [\<lparr>row_id = autoinc t + 1, row_topic = topic,
                              row_parameters = parameters, row_content = c\<rparr>],
            autoinc = autoinc t + 1\<rparr>" for c
    using assms(1-3) by (rule save_step)
  have got: "fst (retrieve_from_sqlite Healthy topic parameters
                (snd (save_to_sqlite Healthy topic parameters c s))) = Inr c" for c
    using retrieve_healthy [OF db', of topic parameters] assms(4)
    by (simp add: key_matches_def)
  have none: "fst (retrieve_from_sqlite Healthy topic parameters s) =
      Inr ''No content found for the given topic and parameters.''"
    using retrieve_healthy [OF assms(1), of topic parameters] assms(4) by simp
  have err: "fst (retrieve_from_sqlite AtExecute topic parameters s) =
      Inr ''An error occurred while retrieving the content.''"
    by (rule retrieve_statement_failure) simp_all
  have row: "\<exists>t' r. db (snd (save_to_sqlite Healthy topic parameters
                        ''No content found for the given topic and parameters.'' s)) = Some t' \<and>
               filter (key_matches topic parameters) (rows t') = [r] \<and>
               row_content r = ''No content found for the given topic and parameters.''"
    using db' [of "''No content found for the given topic and parameters.''"] assms(4)
    by (simp add: key_matches_def)
  show ?thesis using got none err row by simp
qed

theorem not_found_sentinel_is_ordinary_content_witness:
  "db \<lparr>db = Some \<lparr>rows = [], autoinc = 0\<rparr>, out = [], open_conns = 0\<rparr> =
     Some \<lparr>rows = [], autoinc = 0\<rparr> \<and>
   store_inv \<lparr>rows = [], autoinc = 0\<rparr> \<and>
   fst (retrieve_from_sqlite Healthy ''A'' ''p''
          \<lparr>db = Some \<lparr>rows = [], autoinc = 0\<rparr>, out = [], open_conns = 0\<rparr>) =
     Inr ''No content found for the given topic and parameters.'' \<and>
   fst (retrieve_from_sqlite Healthy ''A'' ''p''
          (snd (save_to_sqlite Healthy ''A'' ''p''
                  ''No content found for the given topic and parameters.''
                  \<lparr>db = Some \<lparr>rows = [], autoinc = 0\<rparr>, out = [], open_conns = 0\<rparr>))) =
     Inr ''No content found for the given topic and parameters.'' \<and>
   fst (retrieve_from_sqlite Healthy ''A'' ''p''
          (snd (save_to_sqlite Healthy ''A'' ''p''
                  ''An error occurred while retrieving the content.''
                  \<lparr>db = Some \<lparr>rows = [], autoinc = 0\<rparr>, out = [], open_conns = 0\<rparr>))) =
     Inr ''An error occurred while retrieving the content.'' \<and>
   fst (retrieve_from_sqlite AtExecute ''A'' ''p''
          \<lparr>db = Some \<lparr>rows = [], autoinc = 0\<rparr>, out = [], open_conns = 0\<rparr>) =
     Inr ''An error occurred while retrieving the content.''"
  using not_found_sentinel_is_ordinary_content [of
      "\<lparr>db = Some \<lparr>rows = [], autoinc = 0\<rparr>, out = [], open_conns = 0\<rparr>"
      "\<lparr>rows = [], autoinc = 0\<rparr>" "''A''" "''p''"]
  by (simp add: store_inv_def)

end
